theory Spec2Isabelle
  imports Complex_Main "HOL-Library.AList"
begin

section \<open>The auction signal analytics adapter\<close>

text \<open>
  A shallow embedding of \<^verbatim>\<open>modules/auctionSignalAnalyticsAdapter.js\<close>.

  JavaScript numbers are modelled as exact rationals: every finite double is a rational,
  and the arithmetic of the adapter (sums, quotients, \<^verbatim>\<open>Math.min\<close>, \<^verbatim>\<open>Math.round\<close>)
  is taken without the rounding error of IEEE 754. \<^verbatim>\<open>NaN\<close> and the infinities are not
  represented.
\<close>

subsection \<open>JavaScript values\<close>

datatype jsval =
    JUndefined
  | JNull
  | JBool bool
  | JNum rat
  | JStr string
  | JArr "jsval list"
  | JObj "(string \<times> jsval) list"

text \<open>An object is the list of its own properties, in insertion order.\<close>

type_synonym obj = "(string \<times> jsval) list"

text \<open>\<^verbatim>\<open>!!v\<close>: the falsy values are undefined, null, false, 0 and the empty string.\<close>

fun truthy :: "jsval \<Rightarrow> bool" where
  "truthy JUndefined = False"
| "truthy JNull = False"
| "truthy (JBool b) = b"
| "truthy (JNum n) = (n \<noteq> 0)"
| "truthy (JStr s) = (s \<noteq> [])"
| "truthy (JArr xs) = True"
| "truthy (JObj kvs) = True"

fun nullish :: "jsval \<Rightarrow> bool" where
  "nullish JUndefined = True"
| "nullish JNull = True"
| "nullish v = False"

text \<open>
  \<^verbatim>\<open>v.k\<close> on a value that is neither null nor undefined, for the property names the
  adapter reads (none of them is inherited from a prototype except \<^verbatim>\<open>length\<close> of
  arrays and strings).
\<close>

fun get_prop :: "jsval \<Rightarrow> string \<Rightarrow> jsval" where
  "get_prop (JObj kvs) k = (case map_of kvs k of None \<Rightarrow> JUndefined | Some v \<Rightarrow> v)"
| "get_prop (JArr xs) k = (if k = ''length'' then JNum (of_nat (length xs)) else JUndefined)"
| "get_prop (JStr s) k = (if k = ''length'' then JNum (of_nat (length s)) else JUndefined)"
| "get_prop v k = JUndefined"

text \<open>\<^verbatim>\<open>v?.k\<close>: undefined when \<^verbatim>\<open>v\<close> is null or undefined.\<close>

definition opt_chain :: "jsval \<Rightarrow> string \<Rightarrow> jsval" where
  "opt_chain v k = (if nullish v then JUndefined else get_prop v k)"

text \<open>\<^verbatim>\<open>Math.round\<close>: the nearest integer, a tie going up.\<close>

definition Math_round :: "rat \<Rightarrow> rat" where
  "Math_round x = of_int \<lfloor>x + 1 / 2\<rfloor>"

subsection \<open>Constants\<close>

definition ADAPTER_VERSION :: string where
  "ADAPTER_VERSION = ''1.1.0''"

definition DATA_MODES :: "string list" where
  "DATA_MODES = [''raw'', ''index'', ''both'']"

definition PAYLOAD_FIELDS :: "string list" where
  "PAYLOAD_FIELDS =
    [''domain'', ''pageUrl'', ''publisherId'', ''timestamp'', ''auctionId'',
     ''adapterVersion'', ''pbjsVersion'', ''adUnits'', ''bidderRequests'',
     ''bidResponses'', ''noBids'', ''uniqueBidders'', ''bidderList'', ''cpmStats'',
     ''fillRate'', ''auctionDuration'']"

subsection \<open>CPM statistics and the signal score\<close>

record cpm_stats =
  stats_avg :: rat
  stats_max :: rat
  stats_min :: rat
  stats_median :: rat

text \<open>
  \<^verbatim>\<open>[...cpms].sort((a, b) => a - b)\<close> is the ascending numeric sort, here \<^const>\<open>sort\<close>.
  \<^verbatim>\<open>sorted[mid - 1]\<close> is read only for an even, non-empty length, where \<open>1 \<le> mid\<close>.
\<close>

definition calculateCpmStats :: "rat list \<Rightarrow> cpm_stats" where
  "calculateCpmStats cpms =
    (if length cpms = 0 then
       \<lparr>stats_avg = 0, stats_max = 0, stats_min = 0, stats_median = 0\<rparr>
     else
       let sorted = sort cpms;
           sum = foldl (\<lambda>a b. a + b) 0 cpms;
           avg = sum / of_nat (length cpms);
           min = sorted ! 0;
           max = sorted ! (length sorted - 1);
           mid = length sorted div 2;
           median = (if length sorted mod 2 \<noteq> 0 then sorted ! mid
                     else (sorted ! (mid - 1) + sorted ! mid) / 2)
       in \<lparr>stats_avg = Math_round (avg * 100) / 100,
           stats_max = Math_round (max * 100) / 100,
           stats_min = Math_round (min * 100) / 100,
           stats_median = Math_round (median * 100) / 100\<rparr>)"

definition calculateAuctionSignal :: "rat \<Rightarrow> rat \<Rightarrow> rat \<Rightarrow> rat" where
  "calculateAuctionSignal fillRate avgCpm uniqueBidders =
    (let fillRateScore = min fillRate 1;
         normalizedCpm = min (avgCpm / 10) 1;
         bidderDiversityScore = min (uniqueBidders / 10) 1;
         score = (fillRateScore * (4 / 10)) + (normalizedCpm * (4 / 10))
                 + (bidderDiversityScore * (2 / 10))
     in Math_round (score * 100) / 100)"

text \<open>Rounding to two decimal places, as the specification words it.\<close>

definition round2 :: "rat \<Rightarrow> rat" where
  "round2 x = of_int \<lfloor>x * 100 + 1 / 2\<rfloor> / 100"

subsection \<open>Configuration\<close>

text \<open>
  A vendor entry as the publisher writes it. \<^verbatim>\<open>name\<close>, \<^verbatim>\<open>endpoint\<close> and
  \<^verbatim>\<open>dataMode\<close> may hold any value; \<^verbatim>\<open>excludeFields\<close> is absent (or another falsy
  value), a truthy value that is not an array, or an array of field names
  (\<^verbatim>\<open>string[]\<close> in the type declaration of the source).
\<close>

datatype exclude_input = ExcludeFalsy | ExcludeNotArray | ExcludeArray "string list"

record vendor_input =
  name :: jsval
  endpoint :: jsval
  dataMode :: jsval
  excludeFields :: exclude_input

text \<open>
  The \<^verbatim>\<open>options\<close> of \<^verbatim>\<open>enableAnalytics\<close>: \<^verbatim>\<open>vendors\<close> and \<^verbatim>\<open>excludeFields\<close> are
  \<open>None\<close> when they are missing or not an array. A configuration without
  \<^verbatim>\<open>options\<close> is the record of three missing fields (the default \<^verbatim>\<open>{}\<close>).
\<close>

record options =
  vendors :: "vendor_input list option"
  publisherId :: jsval
  excludeFields :: "string list option"

text \<open>
  A vendor after validation: name and endpoint are non-empty strings, the data mode
  is a string, and \<^verbatim>\<open>excludeFields\<close> is \<open>None\<close> (left falsy) or an array.
\<close>

record vendor =
  name :: string
  endpoint :: string
  dataMode :: string
  excludeFields :: "string list option"

record config =
  vendors :: "vendor list"
  publisherId :: jsval
  excludeFields :: "string list"

definition initial_config :: config where
  "initial_config = \<lparr>config.vendors = [], config.publisherId = JNull, config.excludeFields = []\<rparr>"

text \<open>\<^verbatim>\<open>typeof v === 'string'\<close>, the string held, and \<^verbatim>\<open>list.includes(v)\<close>.\<close>

fun is_string :: "jsval \<Rightarrow> bool" where
  "is_string (JStr s) = True"
| "is_string v = False"

fun the_string :: "jsval \<Rightarrow> string" where
  "the_string (JStr s) = s"
| "the_string v = []"

fun includes_str :: "string list \<Rightarrow> jsval \<Rightarrow> bool" where
  "includes_str xs (JStr s) = (s \<in> set xs)"
| "includes_str xs v = False"

text \<open>
  The callback of \<^verbatim>\<open>options.vendors.filter\<close>: \<open>None\<close> when the entry is skipped,
  otherwise the entry with its \<^verbatim>\<open>dataMode\<close> and \<^verbatim>\<open>excludeFields\<close> normalised in
  place. \<^const>\<open>the_string\<close> is applied to strings only: name and endpoint have passed
  the \<^verbatim>\<open>typeof\<close> test, and a truthy data mode that is kept is a member of
  \<^const>\<open>DATA_MODES\<close>.
\<close>

definition validateVendor :: "vendor_input \<Rightarrow> vendor option" where
  "validateVendor v =
    (if \<not> truthy (vendor_input.name v) \<or> \<not> is_string (vendor_input.name v) then None
     else if \<not> truthy (vendor_input.endpoint v) \<or> \<not> is_string (vendor_input.endpoint v) then None
     else
       let dm1 = (if truthy (vendor_input.dataMode v)
                     \<and> \<not> includes_str DATA_MODES (vendor_input.dataMode v)
                  then JStr ''raw'' else vendor_input.dataMode v);
           dm2 = (if \<not> truthy dm1 then JStr ''raw'' else dm1);
           ex = (case vendor_input.excludeFields v of
                   ExcludeFalsy \<Rightarrow> None
                 | ExcludeNotArray \<Rightarrow> Some []
                 | ExcludeArray xs \<Rightarrow> Some xs)
       in Some \<lparr>vendor.name = the_string (vendor_input.name v),
                vendor.endpoint = the_string (vendor_input.endpoint v),
                vendor.dataMode = the_string dm2,
                vendor.excludeFields = ex\<rparr>)"

text \<open>
  \<^verbatim>\<open>enableAnalytics\<close> returns the new configuration; on each early return the
  configuration is the one before the call. \<open>None\<close> as argument is a value that is
  not an object.
\<close>

definition enableAnalytics :: "config \<Rightarrow> options option \<Rightarrow> config" where
  "enableAnalytics cfg adapterConfig =
    (case adapterConfig of
       None \<Rightarrow> cfg
     | Some opts \<Rightarrow>
        (case options.vendors opts of
           None \<Rightarrow> cfg
         | Some vs \<Rightarrow>
            if length vs = 0 then cfg
            else
              let validVendors = List.map_filter validateVendor vs in
              if length validVendors = 0 then cfg
              else
                \<lparr>config.vendors = validVendors,
                 config.publisherId =
                   (if truthy (options.publisherId opts) then options.publisherId opts else JNull),
                 config.excludeFields =
                   (case options.excludeFields opts of
                      Some flds \<Rightarrow> filter (\<lambda>field. field \<in> set PAYLOAD_FIELDS) flds
                    | None \<Rightarrow> [])\<rparr>))"

definition getExcludeFieldsForVendor :: "config \<Rightarrow> vendor \<Rightarrow> string list" where
  "getExcludeFieldsForVendor cfg v =
    (case vendor.excludeFields v of
       Some flds \<Rightarrow> if length flds > 0 then flds else config.excludeFields cfg
     | None \<Rightarrow> config.excludeFields cfg)"

subsection \<open>Content context\<close>

definition buildContextObject :: "jsval \<Rightarrow> jsval" where
  "buildContextObject siteContent =
    (if \<not> truthy siteContent
        \<or> (\<not> truthy (get_prop siteContent ''language'')
            \<and> \<not> truthy (get_prop siteContent ''keywords''))
     then JNull
     else
       let c0 = [];
           c1 = (if truthy (get_prop siteContent ''language'')
                 then AList.update ''language'' (get_prop siteContent ''language'') c0 else c0);
           c2 = (case get_prop siteContent ''keywords'' of
                   JArr ks \<Rightarrow>
                     if length ks > 0
                     then AList.update ''keywords'' (get_prop siteContent ''keywords'') c1 else c1
                 | other \<Rightarrow> c1)
       in if length c2 > 0 then JObj (AList.update ''source'' (JStr ''ortb2'') c2) else JNull)"

text \<open>
  The loop over \<^verbatim>\<open>auctionArgs.bidderRequests\<close>. Reading \<^verbatim>\<open>bidderRequest.bidderCode\<close>
  for the log line throws on a null or undefined entry, which the \<^verbatim>\<open>catch\<close> of
  \<^verbatim>\<open>getContentContext\<close> turns into \<^verbatim>\<open>null\<close>; the first entry with a truthy
  \<^verbatim>\<open>ortb2?.site?.content\<close> ends the function with what \<^verbatim>\<open>buildContextObject\<close>
  makes of it.
\<close>

datatype scan = Thrown | Returned jsval | NotFound

fun scanBidderRequests :: "jsval list \<Rightarrow> scan" where
  "scanBidderRequests [] = NotFound"
| "scanBidderRequests (bidderRequest # rest) =
    (if nullish bidderRequest then Thrown
     else
       let content = opt_chain (opt_chain (get_prop bidderRequest ''ortb2'') ''site'') ''content''
       in if truthy content then Returned (buildContextObject content)
          else scanBidderRequests rest)"

text \<open>
  The arguments of an event, one record for the fields the handlers destructure.
  \<open>None\<close> is an undefined field. Timestamps are numbers, and \<^verbatim>\<open>adUnits\<close>,
  \<^verbatim>\<open>bids\<close> and \<^verbatim>\<open>bidderRequests\<close> are arrays, as the host library emits them; the
  entries of the arrays and \<^verbatim>\<open>cpm\<close> and \<^verbatim>\<open>ortb2\<close> are any values.
\<close>

record event_args =
  auctionId :: string
  adUnits :: "jsval list option"
  timestamp :: "rat option"
  bidderCode :: string
  bids :: "jsval list option"
  cpm :: jsval
  auctionEnd :: "rat option"
  bidderRequests :: "jsval list option"
  ortb2 :: jsval

text \<open>
  What the handlers read from the page and the host library: the location, the user
  agent, \<^verbatim>\<open>Date.now()\<close>, the two \<^verbatim>\<open>new Date().toISOString()\<close> of the payloads,
  and \<^verbatim>\<open>getGlobal().getConfig('ortb2')\<close>.
\<close>

record env =
  hostname :: string
  pathname :: string
  userAgent :: string
  dateNow :: rat
  isoFull :: string
  isoIndex :: string
  ortb2Config :: jsval

definition getContentContext :: "env \<Rightarrow> event_args \<Rightarrow> jsval" where
  "getContentContext e auctionArgs =
    (case (case event_args.bidderRequests auctionArgs of
             None \<Rightarrow> NotFound
           | Some brs \<Rightarrow> scanBidderRequests brs) of
       Thrown \<Rightarrow> JNull
     | Returned v \<Rightarrow> v
     | NotFound \<Rightarrow>
         let content = opt_chain (opt_chain (event_args.ortb2 auctionArgs) ''site'') ''content''
         in if truthy content then buildContextObject content
            else
              let globalOrtb2 = (if truthy (ortb2Config e) then ortb2Config e else JObj []);
                  gcontent = opt_chain (get_prop globalOrtb2 ''site'') ''content''
              in if truthy gcontent then buildContextObject gcontent else JNull)"

subsection \<open>Payload objects on the heap\<close>

text \<open>
  The payload objects are shared between the destinations, so they live in a store:
  a reference is an index into the list of objects, and a new object is appended.
  Nested values (the statistics object, the content context) are never written to
  after construction and are held by value.
\<close>

type_synonym heap = "obj list"

definition alloc :: "heap \<Rightarrow> obj \<Rightarrow> nat \<times> heap" where
  "alloc h ob = (length h, h @ [ob])"

text \<open>\<^verbatim>\<open>o[k] = v\<close> and \<^verbatim>\<open>delete o[k]\<close> on the object at reference \<open>r\<close>.\<close>

definition setProp :: "heap \<Rightarrow> nat \<Rightarrow> string \<Rightarrow> jsval \<Rightarrow> heap" where
  "setProp h r k v = h[r := AList.update k v (h ! r)]"

definition deleteProp :: "heap \<Rightarrow> nat \<Rightarrow> string \<Rightarrow> heap" where
  "deleteProp h r k = h[r := AList.delete k (h ! r)]"

text \<open>
  \<^verbatim>\<open>filterPayload\<close> returns the reference it was given when there is nothing to
  exclude, and otherwise a new object (the spread copy) with the fields deleted.
  The exclusion list is always an array here: it comes from
  \<^const>\<open>getExcludeFieldsForVendor\<close>.
\<close>

definition filterPayload :: "heap \<Rightarrow> nat \<Rightarrow> string list \<Rightarrow> nat \<times> heap" where
  "filterPayload h payload excluded =
    (if length excluded = 0 then (payload, h)
     else
       let (filtered, h1) = alloc h (h ! payload)
       in (filtered, foldl (\<lambda>hp field. deleteProp hp filtered field) h1 excluded))"

text \<open>
  \<^verbatim>\<open>sendToVendor\<close> posts \<^verbatim>\<open>JSON.stringify(payload)\<close> to the vendor's endpoint: the
  request is the vendor and the contents of the payload object at that moment. The
  call of \<^verbatim>\<open>ajax\<close> returns at once; its outcome reaches the callbacks only, which log.
\<close>

definition sendToVendor :: "heap \<Rightarrow> vendor \<Rightarrow> nat \<Rightarrow> vendor \<times> obj" where
  "sendToVendor h v payload = (v, h ! payload)"

text \<open>The callback of \<^verbatim>\<open>config.vendors.forEach\<close>, on the heap and the requests sent so far.\<close>

definition vendorCallback ::
  "config \<Rightarrow> nat \<Rightarrow> nat \<Rightarrow> rat \<Rightarrow> heap \<times> (vendor \<times> obj) list \<Rightarrow> vendor
     \<Rightarrow> heap \<times> (vendor \<times> obj) list" where
  "vendorCallback cfg fullPayload indexPayload auctionSignal st v =
    (let (h, sent) = st in
     if vendor.dataMode v = ''index'' then
       (h, sent @ [sendToVendor h v indexPayload])
     else if vendor.dataMode v = ''both'' then
       let excludeFields = getExcludeFieldsForVendor cfg v;
           (filteredFull, h1) = filterPayload h fullPayload excludeFields;
           (payloadToSend, h2) =
              alloc h1 (AList.update ''auctionSignal'' (JNum auctionSignal) (h1 ! filteredFull))
       in (h2, sent @ [sendToVendor h2 v payloadToSend])
     else
       let excludeFieldsRaw = getExcludeFieldsForVendor cfg v;
           (payloadToSend, h1) = filterPayload h fullPayload excludeFieldsRaw
       in (h1, sent @ [sendToVendor h1 v payloadToSend]))"

definition sendTelemetryToVendors ::
  "config \<Rightarrow> heap \<Rightarrow> nat \<Rightarrow> nat \<Rightarrow> rat \<Rightarrow> heap \<times> (vendor \<times> obj) list" where
  "sendTelemetryToVendors cfg h fullPayload indexPayload auctionSignal =
    foldl (vendorCallback cfg fullPayload indexPayload auctionSignal) (h, []) (config.vendors cfg)"

subsection \<open>The auction cache and the event handlers\<close>

text \<open>
  \<^verbatim>\<open>bidders\<close> is a \<^verbatim>\<open>Set\<close>: the list of its members in insertion order.
  The counters start at 0 and only grow, so they are natural numbers.
\<close>

record auction_data =
  auctionId :: string
  auctionStart :: rat
  adUnits :: nat
  bidderRequests :: nat
  bidResponses :: nat
  noBids :: nat
  cpms :: "rat list"
  bidders :: "string list"

text \<open>
  The cache is keyed by the auction identifiers the host library issues; the property
  names every object inherits (\<^verbatim>\<open>constructor\<close>, \<^verbatim>\<open>toString\<close>, ...) are not among them.
\<close>

type_synonym auctionCache = "string \<rightharpoonup> auction_data"






text \<open>The values \<^verbatim>\<open>onAuctionEnd\<close> derives from the record of the auction.\<close>

definition auctionDuration_of :: "env \<Rightarrow> auction_data \<Rightarrow> event_args \<Rightarrow> rat" where
  "auctionDuration_of e auction args =
    (case event_args.auctionEnd args of
       Some t \<Rightarrow> if t \<noteq> 0 then t else dateNow e
     | None \<Rightarrow> dateNow e) - auction_data.auctionStart auction"

definition fillRate_of :: "auction_data \<Rightarrow> rat" where
  "fillRate_of auction =
    (let totalRequests = auction_data.bidderRequests auction in
     if totalRequests > 0
     then of_nat (auction_data.bidResponses auction) / of_nat totalRequests else 0)"

definition auctionSignal_of :: "auction_data \<Rightarrow> rat" where
  "auctionSignal_of auction =
    calculateAuctionSignal (fillRate_of auction)
      (stats_avg (calculateCpmStats (auction_data.cpms auction)))
      (of_nat (length (auction_data.bidders auction)))"

text \<open>The two object literals of \<^verbatim>\<open>onAuctionEnd\<close>.\<close>

definition fullPayload_of :: "env \<Rightarrow> config \<Rightarrow> auction_data \<Rightarrow> event_args \<Rightarrow> obj" where
  "fullPayload_of e cfg auction args =
    (let cpmStats = calculateCpmStats (auction_data.cpms auction) in
     [(''domain'', JStr (hostname e)),
      (''pageUrl'', JStr (pathname e)),
      (''publisherId'', config.publisherId cfg),
      (''timestamp'', JStr (isoFull e)),
      (''auctionId'', JStr (event_args.auctionId args)),
      (''adapterVersion'', JStr ADAPTER_VERSION),
      (''pbjsVersion'', JStr ''$prebid.version$''),
      (''userAgent'', JStr (userAgent e)),
      (''adUnits'', JNum (of_nat (auction_data.adUnits auction))),
      (''bidderRequests'', JNum (of_nat (auction_data.bidderRequests auction))),
      (''bidResponses'', JNum (of_nat (auction_data.bidResponses auction))),
      (''noBids'', JNum (of_nat (auction_data.noBids auction))),
      (''uniqueBidders'', JNum (of_nat (length (auction_data.bidders auction)))),
      (''bidderList'', JArr (map JStr (auction_data.bidders auction))),
      (''cpmStats'', JObj [(''avg'', JNum (stats_avg cpmStats)),
                           (''max'', JNum (stats_max cpmStats)),
                           (''min'', JNum (stats_min cpmStats)),
                           (''median'', JNum (stats_median cpmStats))]),
      (''fillRate'', JNum (Math_round (fillRate_of auction * 100) / 100)),
      (''auctionDuration'', JNum (auctionDuration_of e auction args))])"

definition indexPayload_of :: "env \<Rightarrow> auction_data \<Rightarrow> obj" where
  "indexPayload_of e auction =
    [(''domain'', JStr (hostname e)),
     (''timestamp'', JStr (isoIndex e)),
     (''userAgent'', JStr (userAgent e)),
     (''auctionSignal'', JNum (auctionSignal_of auction)),
     (''adUnits'', JNum (of_nat (auction_data.adUnits auction))),
     (''uniqueBidders'', JNum (of_nat (length (auction_data.bidders auction)))),
     (''fillRate'', JNum (Math_round (fillRate_of auction * 100) / 100))]"

text \<open>
  \<^verbatim>\<open>onAuctionEnd\<close> returns the cache and the requests it sent. The two payload
  objects are allocated in a heap of their own.
\<close>

definition onAuctionEnd ::
  "env \<Rightarrow> config \<Rightarrow> auctionCache \<Rightarrow> event_args \<Rightarrow> auctionCache \<times> (vendor \<times> obj) list" where
  "onAuctionEnd e cfg cache args =
    (case cache (event_args.auctionId args) of
       None \<Rightarrow> (cache, [])
     | Some auction \<Rightarrow>
         let auctionSignal = auctionSignal_of auction;
             contentContext = getContentContext e args;
             (fullPayload, h1) = alloc [] (fullPayload_of e cfg auction args);
             (indexPayload, h2) = alloc h1 (indexPayload_of e auction);
             h3 = (if truthy contentContext
                   then setProp (setProp h2 fullPayload ''contentContext'' contentContext)
                          indexPayload ''contentContext'' contentContext
                   else h2);
             (h4, sent) = sendTelemetryToVendors cfg h3 fullPayload indexPayload auctionSignal
         in (cache(event_args.auctionId args := None), sent))"




subsection \<open>What each destination receives\<close>

text \<open>
  A description of the request bodies without the heap, used to state the properties
  of the dispatch: the object without the excluded keys, the payload shaped for a
  vendor, and the payload with the content context attached.
\<close>

definition remove_fields :: "string list \<Rightarrow> obj \<Rightarrow> obj" where
  "remove_fields excluded ob = filter (\<lambda>p. fst p \<notin> set excluded) ob"

definition shapedPayload :: "config \<Rightarrow> obj \<Rightarrow> obj \<Rightarrow> rat \<Rightarrow> vendor \<Rightarrow> obj" where
  "shapedPayload cfg fullObj indexObj auctionSignal v =
    (if vendor.dataMode v = ''index'' then indexObj
     else if vendor.dataMode v = ''both'' then
       AList.update ''auctionSignal'' (JNum auctionSignal)
         (remove_fields (getExcludeFieldsForVendor cfg v) fullObj)
     else remove_fields (getExcludeFieldsForVendor cfg v) fullObj)"

definition withContext :: "jsval \<Rightarrow> obj \<Rightarrow> obj" where
  "withContext contentContext ob =
    (if truthy contentContext then AList.update ''contentContext'' contentContext ob else ob)"

subsection \<open>The sources of the content context\<close>

text \<open>
  The descriptors of the three sources in fallback order: the bidder requests in the
  order they appear, the arguments of the event, the configuration of the host library.
\<close>

definition request_content :: "jsval \<Rightarrow> jsval" where
  "request_content bidderRequest =
     opt_chain (opt_chain (get_prop bidderRequest ''ortb2'') ''site'') ''content''"

definition content_sources :: "env \<Rightarrow> event_args \<Rightarrow> jsval list" where
  "content_sources e args =
     map request_content (case event_args.bidderRequests args of None \<Rightarrow> [] | Some brs \<Rightarrow> brs)
     @ [opt_chain (opt_chain (event_args.ortb2 args) ''site'') ''content'',
        opt_chain (opt_chain (ortb2Config e) ''site'') ''content'']"

text \<open>
  A descriptor carries language and/or keywords when its language is present and
  non-empty or its keywords are a non-empty sequence.
\<close>

definition carries :: "jsval \<Rightarrow> bool" where
  "carries content =
     (truthy (get_prop content ''language'')
      \<or> (case get_prop content ''keywords'' of JArr ks \<Rightarrow> ks \<noteq> [] | other \<Rightarrow> False))"

text \<open>
  The resolver as the specification words it: the first descriptor that carries
  language and/or keywords is used, and the result is null when there is none.
\<close>

definition resolve_spec :: "env \<Rightarrow> event_args \<Rightarrow> jsval" where
  "resolve_spec e args =
     (case find carries (content_sources e args) of
        None \<Rightarrow> JNull
      | Some content \<Rightarrow> buildContextObject content)"

subsection \<open>Example data\<close>

text \<open>
  Concrete inputs, on which the theorems below are instantiated. \<open>no_args\<close> is an
  argument object with no field set.
\<close>

definition no_args :: event_args where
  "no_args = \<lparr>event_args.auctionId = [], event_args.adUnits = None, event_args.timestamp = None,
     event_args.bidderCode = [], event_args.bids = None, event_args.cpm = JUndefined,
     event_args.auctionEnd = None, event_args.bidderRequests = None,
     event_args.ortb2 = JUndefined\<rparr>"

definition example_env :: env where
  "example_env = \<lparr>hostname = ''example.com'', pathname = ''/articles/news-story'',
     userAgent = ''Mozilla/5.0'', dateNow = 5000, isoFull = ''2025-12-18T15:30:00.000Z'',
     isoIndex = ''2025-12-18T15:30:00.000Z'', ortb2Config = JUndefined\<rparr>"

definition example_auction :: auction_data where
  "example_auction = \<lparr>auction_data.auctionId = ''A1'', auction_data.auctionStart = 1000,
     auction_data.adUnits = 3, auction_data.bidderRequests = 9, auction_data.bidResponses = 2,
     auction_data.noBids = 1, auction_data.cpms = [1, 2],
     auction_data.bidders = [''appnexus'', ''rubicon'', ''openx'']\<rparr>"

definition example_cache :: auctionCache where
  "example_cache = [''A1'' \<mapsto> example_auction]"

definition example_end :: event_args where
  "example_end = no_args\<lparr>event_args.auctionId := ''A1'', event_args.auctionEnd := Some 1850\<rparr>"

definition example_vendor :: "string \<Rightarrow> string list option \<Rightarrow> vendor" where
  "example_vendor mode excluded =
     \<lparr>vendor.name = ''vendor'', vendor.endpoint = ''https://vendor.example/ingest'',
      vendor.dataMode = mode, vendor.excludeFields = excluded\<rparr>"

definition example_config :: "vendor list \<Rightarrow> string list \<Rightarrow> config" where
  "example_config vs excluded =
     \<lparr>config.vendors = vs, config.publisherId = JStr ''pub-12345'', config.excludeFields = excluded\<rparr>"

definition example_options :: options where
  "example_options =
     \<lparr>options.vendors = Some
        [\<lparr>vendor_input.name = JStr ''vendor2'',
          vendor_input.endpoint = JStr ''https://vendor2.example/ingest'',
          vendor_input.dataMode = JUndefined,
          vendor_input.excludeFields = ExcludeArray [''pageUrl'']\<rparr>],
      options.publisherId = JStr ''pub-12345'',
      options.excludeFields = Some [''cpmStats'']\<rparr>"

definition example_heap :: heap where
  "example_heap =
     [[(''domain'', JStr ''example.com''), (''pageUrl'', JStr ''/a''), (''fillRate'', JNum (1 / 2))],
      [(''domain'', JStr ''example.com''), (''auctionSignal'', JNum (1 / 5))]]"



text \<open>A bidder request whose \<^verbatim>\<open>ortb2.site.content\<close> is the given object.\<close>

definition content_with :: "obj \<Rightarrow> jsval" where
  "content_with content = JObj [(''ortb2'', JObj [(''site'', JObj [(''content'', JObj content)])])]"

definition example_requests :: event_args where
  "example_requests = no_args\<lparr>event_args.auctionId := ''A1'',
      event_args.bidderRequests := Some [content_with [],
                                         content_with [(''language'', JStr ''en'')]]\<rparr>"

definition unchecked_options :: options where
  "unchecked_options =
     \<lparr>options.vendors = Some
        [\<lparr>vendor_input.name = JStr ''vendor1'',
          vendor_input.endpoint = JStr ''https://vendor1.example/ingest'',
          vendor_input.dataMode = JStr ''raw'',
          vendor_input.excludeFields = ExcludeArray [''notAField'']\<rparr>],
      options.publisherId = JUndefined,
      options.excludeFields = Some [''notAField'', ''cpmStats'']\<rparr>"

section \<open>Properties\<close>

subsection \<open>Arithmetic of rounding\<close>

lemma floor_rat_numeral_div:
  "\<lfloor>numeral a / numeral b :: rat\<rfloor> = numeral a div numeral b"
  using floor_divide_of_int_eq [of "numeral a" "numeral b", where ?'a = rat] by simp

lemma floor_rat_one_div:
  "\<lfloor>1 / numeral b :: rat\<rfloor> = 1 div numeral b"
  using floor_divide_of_int_eq [of 1 "numeral b", where ?'a = rat] by simp

lemmas floor_rat = floor_rat_numeral_div floor_rat_one_div






lemma round2_close: "\<bar>round2 x - x\<bar> \<le> 1 / 200"
  unfolding round2_def by linarith

lemma round2_hundredths: "of_int \<lfloor>round2 x * 100\<rfloor> = round2 x * 100"
  by (simp add: round2_def floor_rat)


subsection \<open>CPM statistics\<close>



subsection \<open>The signal score\<close>



subsection \<open>The dispatch, without the heap\<close>

lemma remove_fields_Nil: "remove_fields [] ob = ob"
  by (simp add: remove_fields_def)

lemma remove_fields_Cons: "remove_fields (k # ks) ob = remove_fields ks (AList.delete k ob)"
  by (induction ob) (auto simp: remove_fields_def)

lemma foldl_deleteProp:
  "r < length h \<Longrightarrow>
   foldl (\<lambda>hp field. deleteProp hp r field) h ks = h[r := remove_fields ks (h ! r)]"
proof (induction ks arbitrary: h)
  case Nil
  then show ?case by (simp add: remove_fields_Nil)
next
  case (Cons k ks)
  have len: "r < length (deleteProp h r k)" using Cons.prems by (simp add: deleteProp_def)
  show ?case
    using Cons.IH [OF len] Cons.prems
    by (simp add: deleteProp_def remove_fields_Cons)
qed

lemma filterPayload_spec:
  assumes "payload < length h" and "filterPayload h payload ks = (r, h')"
  shows "r < length h' \<and> h' ! r = remove_fields ks (h ! payload)
         \<and> length h \<le> length h' \<and> take (length h) h' = h"
proof (cases "ks = []")
  case True
  then show ?thesis using assms by (simp add: filterPayload_def remove_fields_Nil)
next
  case False
  have r: "r = length h" and h': "h' = h @ [remove_fields ks (h ! payload)]"
    using assms False
    by (auto simp add: filterPayload_def alloc_def foldl_deleteProp)
  show ?thesis unfolding r h' by simp
qed

lemma heap_prefix_nth: "take n h' = h \<Longrightarrow> i < length h \<Longrightarrow> h' ! i = h ! i"
  by (metis length_take min_less_iff_conj nth_take)

lemma vendorCallback_spec:
  assumes "fullPayload < length h" and "indexPayload < length h"
    and "vendorCallback cfg fullPayload indexPayload s (h, sent) v = (h', sent')"
  shows "take (length h) h' = h \<and> length h \<le> length h'
         \<and> sent' = sent @ [(v, shapedPayload cfg (h ! fullPayload) (h ! indexPayload) s v)]"
proof -
  obtain r h1 where f: "filterPayload h fullPayload (getExcludeFieldsForVendor cfg v) = (r, h1)"
    by (cases "filterPayload h fullPayload (getExcludeFieldsForVendor cfg v)") auto
  note fs = filterPayload_spec [OF assms(1) f]
  show ?thesis
  proof (cases "vendor.dataMode v = ''index''")
    case True
    then show ?thesis using assms(3)
      by (auto simp add: vendorCallback_def sendToVendor_def shapedPayload_def)
  next
    case nidx: False
    show ?thesis
    proof (cases "vendor.dataMode v = ''both''")
      case True
      have "take (length h) (h1 @ [x]) = h" for x
        using fs by (metis append_Nil2 diff_is_0_eq take_0 take_append)
      then show ?thesis using assms(3) nidx True f fs
        by (auto simp add: vendorCallback_def sendToVendor_def shapedPayload_def alloc_def Let_def)
    next
      case False
      then show ?thesis using assms(3) nidx f fs
        by (auto simp add: vendorCallback_def sendToVendor_def shapedPayload_def Let_def)
    qed
  qed
qed

lemma foldl_vendorCallback:
  assumes "fullPayload < length h0" and "indexPayload < length h0"
  shows "take (length h0) h = h0 \<Longrightarrow> length h0 \<le> length h \<Longrightarrow>
     \<exists>h'. foldl (vendorCallback cfg fullPayload indexPayload s) (h, sent) vs
       = (h', sent @ map (\<lambda>v. (v, shapedPayload cfg (h0 ! fullPayload) (h0 ! indexPayload) s v)) vs)
       \<and> take (length h0) h' = h0"
proof (induction vs arbitrary: h sent)
  case Nil
  then show ?case by simp
next
  case (Cons v vs)
  obtain h1 sent1 where step: "vendorCallback cfg fullPayload indexPayload s (h, sent) v = (h1, sent1)"
    by (cases "vendorCallback cfg fullPayload indexPayload s (h, sent) v") auto
  have f: "fullPayload < length h" and i: "indexPayload < length h"
    using assms Cons.prems by auto
  note vs = vendorCallback_spec [OF f i step]
  have nf: "h ! fullPayload = h0 ! fullPayload" and ni: "h ! indexPayload = h0 ! indexPayload"
    using heap_prefix_nth [OF Cons.prems(1)] assms by auto
  have p1: "take (length h0) h1 = h0"
  proof -
    have "take (length h0) (take (length h) h1) = take (length h0) h1"
      using Cons.prems(2) by (simp add: min_def)
    then show ?thesis using vs Cons.prems(1) by simp
  qed
  have p2: "length h0 \<le> length h1" using vs Cons.prems by auto
  obtain h' where ih: "foldl (vendorCallback cfg fullPayload indexPayload s) (h1, sent1) vs
       = (h', sent1 @ map (\<lambda>v. (v, shapedPayload cfg (h0 ! fullPayload) (h0 ! indexPayload) s v)) vs)"
    and pre: "take (length h0) h' = h0"
    using Cons.IH [OF p1 p2, of sent1] by blast
  have s1: "sent1 = sent @ [(v, shapedPayload cfg (h0 ! fullPayload) (h0 ! indexPayload) s v)]"
    using vs nf ni by simp
  have "foldl (vendorCallback cfg fullPayload indexPayload s) (h, sent) (v # vs)
       = (h', sent1 @ map (\<lambda>v. (v, shapedPayload cfg (h0 ! fullPayload) (h0 ! indexPayload) s v)) vs)"
    using ih by (simp add: step)
  then have "foldl (vendorCallback cfg fullPayload indexPayload s) (h, sent) (v # vs)
       = (h', sent @ map (\<lambda>v. (v, shapedPayload cfg (h0 ! fullPayload) (h0 ! indexPayload) s v)) (v # vs))"
    by (simp add: s1)
  then show ?case using pre by blast
qed

lemma sendTelemetryToVendors_heap:
  assumes "fullPayload < length h" and "indexPayload < length h"
  shows "\<exists>h'. sendTelemetryToVendors cfg h fullPayload indexPayload s
     = (h', map (\<lambda>v. (v, shapedPayload cfg (h ! fullPayload) (h ! indexPayload) s v))
              (config.vendors cfg))
     \<and> take (length h) h' = h"
  using foldl_vendorCallback [OF assms, of h cfg s "[]" "config.vendors cfg"]
  by (auto simp add: sendTelemetryToVendors_def)

lemma sendTelemetryToVendors_spec:
  assumes "fullPayload < length h" and "indexPayload < length h"
  shows "snd (sendTelemetryToVendors cfg h fullPayload indexPayload s)
     = map (\<lambda>v. (v, shapedPayload cfg (h ! fullPayload) (h ! indexPayload) s v)) (config.vendors cfg)"
  using sendTelemetryToVendors_heap [OF assms, of cfg s] by auto

lemma map_of_remove_fields:
  "map_of (remove_fields ks ob) k = (if k \<in> set ks then None else map_of ob k)"
  by (induction ob) (auto simp: remove_fields_def)

lemma keys_remove_fields: "fst ` set (remove_fields ks ob) = fst ` set ob - set ks"
  by (auto simp: remove_fields_def)

lemma onAuctionEnd_spec:
  assumes "cache (event_args.auctionId args) = Some auction"
  shows "onAuctionEnd e cfg cache args =
    (cache(event_args.auctionId args := None),
     map (\<lambda>v. (v, shapedPayload cfg
                 (withContext (getContentContext e args) (fullPayload_of e cfg auction args))
                 (withContext (getContentContext e args) (indexPayload_of e auction))
                 (auctionSignal_of auction) v)) (config.vendors cfg))"
  using assms
  by (cases "truthy (getContentContext e args)")
     (simp_all add: onAuctionEnd_def alloc_def Let_def split_beta setProp_def withContext_def
        sendTelemetryToVendors_spec)

lemma keys_withContext:
  "fst ` set (withContext c ob) \<subseteq> insert ''contentContext'' (fst ` set ob)"
  by (auto simp: withContext_def AList.dom_update)

lemma keys_indexPayload:
  "fst ` set (indexPayload_of e a) = {''domain'', ''timestamp'', ''userAgent'', ''auctionSignal'',
      ''adUnits'', ''uniqueBidders'', ''fillRate''}"
  by (simp add: indexPayload_of_def)


lemma shaped_body:
  assumes "cache (event_args.auctionId args) = Some auction"
    and "(v, body) \<in> set (snd (onAuctionEnd e cfg cache args))"
  shows "body = shapedPayload cfg
                 (withContext (getContentContext e args) (fullPayload_of e cfg auction args))
                 (withContext (getContentContext e args) (indexPayload_of e auction))
                 (auctionSignal_of auction) v"
  using assms by (auto simp add: onAuctionEnd_spec)

lemma example_enabled:
  "enableAnalytics initial_config (Some example_options) =
     \<lparr>config.vendors =
        [\<lparr>vendor.name = ''vendor2'', vendor.endpoint = ''https://vendor2.example/ingest'',
          vendor.dataMode = ''raw'', vendor.excludeFields = Some [''pageUrl'']\<rparr>],
      config.publisherId = JStr ''pub-12345'',
      config.excludeFields = [''cpmStats'']\<rparr>"
  by (simp add: enableAnalytics_def example_options_def validateVendor_def List.map_filter_def
        DATA_MODES_def PAYLOAD_FIELDS_def Let_def)

lemma keys_remove_fields_list: "map fst (remove_fields ks ob) = filter (\<lambda>k. k \<notin> set ks) (map fst ob)"
  by (induction ob) (auto simp: remove_fields_def)

subsection \<open>The index payload\<close>

text \<open>
  Claim C4. Whatever the configuration (global or per-vendor exclusions) and whatever
  the auction, the payload sent to a vendor whose data mode is \<open>index\<close> is the index
  payload: it has no \<open>cpmStats\<close> and no \<open>bidderList\<close> field, and no field beyond the
  domain, the timestamp, the user agent, the signal, the number of ad units, the number
  of unique bidders, the fill rate and the content context.
\<close>

theorem index_vendor_payload:
  assumes "cache (event_args.auctionId args) = Some auction"
    and "(v, body) \<in> set (snd (onAuctionEnd e cfg cache args))"
    and "vendor.dataMode v = ''index''"
  shows "body = withContext (getContentContext e args) (indexPayload_of e auction)
       \<and> ''cpmStats'' \<notin> fst ` set body \<and> ''bidderList'' \<notin> fst ` set body
       \<and> fst ` set body \<subseteq> {''domain'', ''timestamp'', ''userAgent'', ''auctionSignal'',
            ''adUnits'', ''uniqueBidders'', ''fillRate'', ''contentContext''}"
proof -
  have b: "body = withContext (getContentContext e args) (indexPayload_of e auction)"
    using assms by (auto simp add: onAuctionEnd_spec shapedPayload_def)
  have k: "fst ` set body \<subseteq> {''domain'', ''timestamp'', ''userAgent'', ''auctionSignal'',
            ''adUnits'', ''uniqueBidders'', ''fillRate'', ''contentContext''}"
    using keys_withContext [of "getContentContext e args" "indexPayload_of e auction"]
    unfolding b keys_indexPayload by auto
  have "''cpmStats'' \<notin> fst ` set body \<and> ''bidderList'' \<notin> fst ` set body"
    using k by auto
  then show ?thesis using b k by blast
qed

theorem index_vendor_payload_witness:
  "example_cache (event_args.auctionId example_end) = Some example_auction
   \<and> (example_vendor ''index'' (Some [''fillRate'']),
        snd (hd (snd (onAuctionEnd example_env
          (example_config [example_vendor ''index'' (Some [''fillRate''])] [''adUnits''])
          example_cache example_end))))
      \<in> set (snd (onAuctionEnd example_env
          (example_config [example_vendor ''index'' (Some [''fillRate''])] [''adUnits''])
          example_cache example_end))
   \<and> vendor.dataMode (example_vendor ''index'' (Some [''fillRate''])) = ''index''
   \<and> ''cpmStats'' \<notin> fst ` set (snd (hd (snd (onAuctionEnd example_env
          (example_config [example_vendor ''index'' (Some [''fillRate''])] [''adUnits''])
          example_cache example_end))))
   \<and> ''bidderList'' \<notin> fst ` set (snd (hd (snd (onAuctionEnd example_env
          (example_config [example_vendor ''index'' (Some [''fillRate''])] [''adUnits''])
          example_cache example_end))))"
proof -
  have c: "example_cache (event_args.auctionId example_end) = Some example_auction"
    by (simp add: example_cache_def example_end_def no_args_def)
  have m: "(example_vendor ''index'' (Some [''fillRate'']),
        snd (hd (snd (onAuctionEnd example_env
          (example_config [example_vendor ''index'' (Some [''fillRate''])] [''adUnits''])
          example_cache example_end))))
      \<in> set (snd (onAuctionEnd example_env
          (example_config [example_vendor ''index'' (Some [''fillRate''])] [''adUnits''])
          example_cache example_end))"
    using c by (simp add: onAuctionEnd_spec [of example_cache example_end example_auction] example_config_def)
  have d: "vendor.dataMode (example_vendor ''index'' (Some [''fillRate''])) = ''index''"
    by (simp add: example_vendor_def)
  show ?thesis using index_vendor_payload [of example_cache example_end example_auction, OF c m d] c m d by blast
qed

subsection \<open>The signal in the combined payload\<close>

lemma both_vendor_body:
  assumes "cache (event_args.auctionId args) = Some auction"
    and "(v, body) \<in> set (snd (onAuctionEnd e cfg cache args))"
    and "vendor.dataMode v = ''both''"
  shows "map_of body ''auctionSignal'' = Some (JNum (auctionSignal_of auction))
       \<and> auctionSignal_of auction
           = calculateAuctionSignal (fillRate_of auction)
               (stats_avg (calculateCpmStats (auction_data.cpms auction)))
               (of_nat (length (auction_data.bidders auction)))
       \<and> (\<forall>k. k \<noteq> ''auctionSignal'' \<longrightarrow>
             map_of body k
               = (if k \<in> set (getExcludeFieldsForVendor cfg v) then None
                  else map_of (withContext (getContentContext e args)
                                 (fullPayload_of e cfg auction args)) k))"
proof -
  have b: "body = AList.update ''auctionSignal'' (JNum (auctionSignal_of auction))
                    (remove_fields (getExcludeFieldsForVendor cfg v)
                       (withContext (getContentContext e args) (fullPayload_of e cfg auction args)))"
    using shaped_body [OF assms(1,2)] assms(3) by (simp add: shapedPayload_def)
  show ?thesis unfolding b
    by (simp add: update_conv' map_of_remove_fields auctionSignal_of_def)
qed

text \<open>
  Claim C10. The payload sent to a vendor whose data mode is \<open>both\<close> always has the
  field \<open>auctionSignal\<close>, bound to the signal computed for the auction, also when the
  exclusion list in effect for the vendor names \<open>auctionSignal\<close>: the signal is added
  after the exclusions have been applied, and every other field is the field of the
  full payload unless it is excluded.
\<close>

theorem both_vendor_signal:
  assumes "cache (event_args.auctionId args) = Some auction"
    and "(v, body) \<in> set (snd (onAuctionEnd e cfg cache args))"
    and "vendor.dataMode v = ''both''"
  shows "map_of body ''auctionSignal'' = Some (JNum (auctionSignal_of auction))
       \<and> auctionSignal_of auction
           = calculateAuctionSignal (fillRate_of auction)
               (stats_avg (calculateCpmStats (auction_data.cpms auction)))
               (of_nat (length (auction_data.bidders auction)))
       \<and> (\<forall>k. k \<noteq> ''auctionSignal'' \<longrightarrow>
             map_of body k
               = (if k \<in> set (getExcludeFieldsForVendor cfg v) then None
                  else map_of (withContext (getContentContext e args)
                                 (fullPayload_of e cfg auction args)) k))"
  using both_vendor_body [OF assms] .

theorem both_vendor_signal_witness:
  "example_cache (event_args.auctionId example_end) = Some example_auction
   \<and> (example_vendor ''both'' (Some [''auctionSignal'', ''cpmStats'']),
        snd (hd (snd (onAuctionEnd example_env
          (example_config [example_vendor ''both'' (Some [''auctionSignal'', ''cpmStats''])] [])
          example_cache example_end))))
      \<in> set (snd (onAuctionEnd example_env
          (example_config [example_vendor ''both'' (Some [''auctionSignal'', ''cpmStats''])] [])
          example_cache example_end))
   \<and> vendor.dataMode (example_vendor ''both'' (Some [''auctionSignal'', ''cpmStats''])) = ''both''
   \<and> ''auctionSignal'' \<in> set (getExcludeFieldsForVendor
          (example_config [example_vendor ''both'' (Some [''auctionSignal'', ''cpmStats''])] [])
          (example_vendor ''both'' (Some [''auctionSignal'', ''cpmStats''])))
   \<and> map_of (snd (hd (snd (onAuctionEnd example_env
          (example_config [example_vendor ''both'' (Some [''auctionSignal'', ''cpmStats''])] [])
          example_cache example_end)))) ''auctionSignal''
      = Some (JNum (21 / 100))"
proof -
  have c: "example_cache (event_args.auctionId example_end) = Some example_auction"
    by (simp add: example_cache_def example_end_def no_args_def)
  have m: "(example_vendor ''both'' (Some [''auctionSignal'', ''cpmStats'']),
        snd (hd (snd (onAuctionEnd example_env
          (example_config [example_vendor ''both'' (Some [''auctionSignal'', ''cpmStats''])] [])
          example_cache example_end))))
      \<in> set (snd (onAuctionEnd example_env
          (example_config [example_vendor ''both'' (Some [''auctionSignal'', ''cpmStats''])] [])
          example_cache example_end))"
    using c by (simp add: onAuctionEnd_spec [of example_cache example_end example_auction]
                  example_config_def)
  have d: "vendor.dataMode (example_vendor ''both'' (Some [''auctionSignal'', ''cpmStats''])) = ''both''"
    by (simp add: example_vendor_def)
  have x: "''auctionSignal'' \<in> set (getExcludeFieldsForVendor
          (example_config [example_vendor ''both'' (Some [''auctionSignal'', ''cpmStats''])] [])
          (example_vendor ''both'' (Some [''auctionSignal'', ''cpmStats''])))"
    by (simp add: getExcludeFieldsForVendor_def example_vendor_def)
  have s: "auctionSignal_of example_auction = 21 / 100"
    by (simp add: auctionSignal_of_def example_auction_def fillRate_of_def calculateCpmStats_def
          calculateAuctionSignal_def Let_def Math_round_def floor_rat)
  show ?thesis
    using both_vendor_signal [of example_cache example_end example_auction, OF c m d] c m d x s
    by simp
qed

subsection \<open>Per-vendor exclusions replace the global ones\<close>

text \<open>
  Claim C3. For a vendor in raw or both mode the exclusion list in effect is the
  vendor's own list when it is present and non-empty, and the global list otherwise,
  never the union: a field is missing from the payload exactly when that one list names
  it. With the global list \<open>[cpmStats]\<close> and a vendor's own list \<open>[pageUrl]\<close>, the raw
  payload of that vendor has every field of the full payload, \<open>cpmStats\<close> included,
  except \<open>pageUrl\<close>.
\<close>

theorem vendor_exclusions_replace_global:
  "(cache (event_args.auctionId args) = Some auction
      \<and> (v, body) \<in> set (snd (onAuctionEnd e cfg cache args))
      \<and> vendor.dataMode v \<noteq> ''index'' \<longrightarrow>
        getExcludeFieldsForVendor cfg v
          = (case vendor.excludeFields v of
               Some own \<Rightarrow> if own \<noteq> [] then own else config.excludeFields cfg
             | None \<Rightarrow> config.excludeFields cfg)
      \<and> (\<forall>k. k \<noteq> ''auctionSignal'' \<or> vendor.dataMode v \<noteq> ''both'' \<longrightarrow>
            map_of body k
              = (if k \<in> set (getExcludeFieldsForVendor cfg v) then None
                 else map_of (withContext (getContentContext e args)
                                (fullPayload_of e cfg auction args)) k)))
   \<and> map (\<lambda>(v, body). (vendor.name v, map fst body))
        (snd (onAuctionEnd example_env (enableAnalytics initial_config (Some example_options))
                example_cache example_end))
      = [(''vendor2'',
          [''domain'', ''publisherId'', ''timestamp'', ''auctionId'', ''adapterVersion'',
           ''pbjsVersion'', ''userAgent'', ''adUnits'', ''bidderRequests'', ''bidResponses'',
           ''noBids'', ''uniqueBidders'', ''bidderList'', ''cpmStats'', ''fillRate'',
           ''auctionDuration''])]"
proof -
  have eff: "getExcludeFieldsForVendor cfg v
          = (case vendor.excludeFields v of
               Some own \<Rightarrow> if own \<noteq> [] then own else config.excludeFields cfg
             | None \<Rightarrow> config.excludeFields cfg)"
    by (simp add: getExcludeFieldsForVendor_def split: option.splits)
  have gen: "cache (event_args.auctionId args) = Some auction
      \<and> (v, body) \<in> set (snd (onAuctionEnd e cfg cache args))
      \<and> vendor.dataMode v \<noteq> ''index'' \<longrightarrow>
       (\<forall>k. k \<noteq> ''auctionSignal'' \<or> vendor.dataMode v \<noteq> ''both'' \<longrightarrow>
            map_of body k
              = (if k \<in> set (getExcludeFieldsForVendor cfg v) then None
                 else map_of (withContext (getContentContext e args)
                                (fullPayload_of e cfg auction args)) k))"
  proof
    assume a: "cache (event_args.auctionId args) = Some auction
      \<and> (v, body) \<in> set (snd (onAuctionEnd e cfg cache args))
      \<and> vendor.dataMode v \<noteq> ''index''"
    have b: "body = shapedPayload cfg
                 (withContext (getContentContext e args) (fullPayload_of e cfg auction args))
                 (withContext (getContentContext e args) (indexPayload_of e auction))
                 (auctionSignal_of auction) v"
      using a shaped_body by blast
    show "\<forall>k. k \<noteq> ''auctionSignal'' \<or> vendor.dataMode v \<noteq> ''both'' \<longrightarrow>
            map_of body k
              = (if k \<in> set (getExcludeFieldsForVendor cfg v) then None
                 else map_of (withContext (getContentContext e args)
                                (fullPayload_of e cfg auction args)) k)"
      unfolding b using a
      by (simp add: shapedPayload_def update_conv' map_of_remove_fields)
  qed
  have c: "example_cache (event_args.auctionId example_end) = Some example_auction"
    by (simp add: example_cache_def example_end_def no_args_def)
  have ncc: "getContentContext example_env example_end = JNull"
    by (simp add: getContentContext_def example_env_def example_end_def no_args_def opt_chain_def)
  have ex: "map (\<lambda>(v, body). (vendor.name v, map fst body))
        (snd (onAuctionEnd example_env (enableAnalytics initial_config (Some example_options))
                example_cache example_end))
      = [(''vendor2'',
          [''domain'', ''publisherId'', ''timestamp'', ''auctionId'', ''adapterVersion'',
           ''pbjsVersion'', ''userAgent'', ''adUnits'', ''bidderRequests'', ''bidResponses'',
           ''noBids'', ''uniqueBidders'', ''bidderList'', ''cpmStats'', ''fillRate'',
           ''auctionDuration''])]"
    using c
    by (simp add: onAuctionEnd_spec [of example_cache example_end example_auction]
          example_enabled shapedPayload_def getExcludeFieldsForVendor_def ncc withContext_def
          keys_remove_fields_list fullPayload_of_def Let_def)
  show ?thesis using eff gen ex by blast
qed

theorem vendor_exclusions_replace_global_witness:
  "example_cache (event_args.auctionId example_end) = Some example_auction
   \<and> (example_vendor ''raw'' (Some [''pageUrl'']),
        snd (hd (snd (onAuctionEnd example_env
          (example_config [example_vendor ''raw'' (Some [''pageUrl''])] [''cpmStats''])
          example_cache example_end))))
      \<in> set (snd (onAuctionEnd example_env
          (example_config [example_vendor ''raw'' (Some [''pageUrl''])] [''cpmStats''])
          example_cache example_end))
   \<and> vendor.dataMode (example_vendor ''raw'' (Some [''pageUrl''])) \<noteq> ''index''
   \<and> getExcludeFieldsForVendor
        (example_config [example_vendor ''raw'' (Some [''pageUrl''])] [''cpmStats''])
        (example_vendor ''raw'' (Some [''pageUrl''])) = [''pageUrl'']
   \<and> map_of (snd (hd (snd (onAuctionEnd example_env
          (example_config [example_vendor ''raw'' (Some [''pageUrl''])] [''cpmStats''])
          example_cache example_end)))) ''pageUrl'' = None
   \<and> map_of (snd (hd (snd (onAuctionEnd example_env
          (example_config [example_vendor ''raw'' (Some [''pageUrl''])] [''cpmStats''])
          example_cache example_end)))) ''cpmStats''
      = Some (JObj [(''avg'', JNum (3 / 2)), (''max'', JNum 2), (''min'', JNum 1),
                    (''median'', JNum (3 / 2))])"
proof -
  have c: "example_cache (event_args.auctionId example_end) = Some example_auction"
    by (simp add: example_cache_def example_end_def no_args_def)
  have m: "(example_vendor ''raw'' (Some [''pageUrl'']),
        snd (hd (snd (onAuctionEnd example_env
          (example_config [example_vendor ''raw'' (Some [''pageUrl''])] [''cpmStats''])
          example_cache example_end))))
      \<in> set (snd (onAuctionEnd example_env
          (example_config [example_vendor ''raw'' (Some [''pageUrl''])] [''cpmStats''])
          example_cache example_end))"
    using c by (simp add: onAuctionEnd_spec [of example_cache example_end example_auction]
                  example_config_def)
  have d: "vendor.dataMode (example_vendor ''raw'' (Some [''pageUrl''])) \<noteq> ''index''"
    by (simp add: example_vendor_def)
  have st: "calculateCpmStats (auction_data.cpms example_auction)
      = \<lparr>stats_avg = 3 / 2, stats_max = 2, stats_min = 1, stats_median = 3 / 2\<rparr>"
    by (simp add: example_auction_def calculateCpmStats_def Let_def Math_round_def floor_rat)
  have ncc: "getContentContext example_env example_end = JNull"
    by (simp add: getContentContext_def example_env_def example_end_def no_args_def opt_chain_def)
  have f1: "map_of (withContext (getContentContext example_env example_end)
               (fullPayload_of example_env
                  (example_config [example_vendor ''raw'' (Some [''pageUrl''])] [''cpmStats''])
                  example_auction example_end)) ''cpmStats''
      = Some (JObj [(''avg'', JNum (3 / 2)), (''max'', JNum 2), (''min'', JNum 1),
                    (''median'', JNum (3 / 2))])"
    by (simp add: ncc withContext_def fullPayload_of_def Let_def st)
  have g: "getExcludeFieldsForVendor
        (example_config [example_vendor ''raw'' (Some [''pageUrl''])] [''cpmStats''])
        (example_vendor ''raw'' (Some [''pageUrl''])) = [''pageUrl'']"
    by (simp add: getExcludeFieldsForVendor_def example_vendor_def)
  show ?thesis
    using vendor_exclusions_replace_global [of example_cache example_end example_auction
        "example_vendor ''raw'' (Some [''pageUrl''])" _ example_env
        "example_config [example_vendor ''raw'' (Some [''pageUrl''])] [''cpmStats'']"]
      c m d f1 g
    by simp
qed

subsection \<open>Filtering does not write to the payload\<close>

lemma example_filter:
  "filterPayload example_heap 0 [''pageUrl'', ''cpmStats'']
     = (2, example_heap @ [[(''domain'', JStr ''example.com''), (''fillRate'', JNum (1 / 2))]])"
  by (simp add: filterPayload_def example_heap_def alloc_def deleteProp_def)

lemma example_send:
  "sendTelemetryToVendors
      (example_config [example_vendor ''raw'' (Some [''pageUrl'']), example_vendor ''both'' None,
                       example_vendor ''index'' None] [''domain''])
      example_heap 0 1 (1 / 5)
   = (example_heap
        @ [[(''domain'', JStr ''example.com''), (''fillRate'', JNum (1 / 2))],
           [(''pageUrl'', JStr ''/a''), (''fillRate'', JNum (1 / 2))],
           [(''pageUrl'', JStr ''/a''), (''fillRate'', JNum (1 / 2)), (''auctionSignal'', JNum (1 / 5))]],
      [(example_vendor ''raw'' (Some [''pageUrl'']),
          [(''domain'', JStr ''example.com''), (''fillRate'', JNum (1 / 2))]),
       (example_vendor ''both'' None,
          [(''pageUrl'', JStr ''/a''), (''fillRate'', JNum (1 / 2)), (''auctionSignal'', JNum (1 / 5))]),
       (example_vendor ''index'' None,
          [(''domain'', JStr ''example.com''), (''auctionSignal'', JNum (1 / 5))])])"
  by (simp add: sendTelemetryToVendors_def vendorCallback_def example_config_def example_vendor_def
        getExcludeFieldsForVendor_def filterPayload_def example_heap_def alloc_def deleteProp_def
        sendToVendor_def Let_def nth_append)

text \<open>
  Claim C9. \<^verbatim>\<open>filterPayload\<close> leaves every object of the heap as it was, the payload it
  is given included; the object it returns has the keys of the payload that the
  exclusion list does not name, each with the value it has in the payload. So after
  \<^verbatim>\<open>sendTelemetryToVendors\<close> the payload objects are unchanged, and what each vendor
  is sent is determined by that vendor and the two payloads alone, whatever was excluded
  for the vendors before it.
\<close>

theorem filterPayload_copy_on_write:
  "(payload < length h \<and> filterPayload h payload ks = (r, h') \<longrightarrow>
      (\<forall>i < length h. h' ! i = h ! i)
      \<and> r < length h'
      \<and> fst ` set (h' ! r) = fst ` set (h ! payload) - set ks
      \<and> (\<forall>k. k \<notin> set ks \<longrightarrow> map_of (h' ! r) k = map_of (h ! payload) k))
   \<and> (fullPayload < length h \<and> indexPayload < length h
        \<and> sendTelemetryToVendors cfg h fullPayload indexPayload s = (h2, sent) \<longrightarrow>
      (\<forall>i < length h. h2 ! i = h ! i)
      \<and> sent = map (\<lambda>v. (v, shapedPayload cfg (h ! fullPayload) (h ! indexPayload) s v))
                 (config.vendors cfg))"
proof -
  have a: "payload < length h \<and> filterPayload h payload ks = (r, h') \<longrightarrow>
      (\<forall>i < length h. h' ! i = h ! i)
      \<and> r < length h'
      \<and> fst ` set (h' ! r) = fst ` set (h ! payload) - set ks
      \<and> (\<forall>k. k \<notin> set ks \<longrightarrow> map_of (h' ! r) k = map_of (h ! payload) k)"
  proof
    assume p: "payload < length h \<and> filterPayload h payload ks = (r, h')"
    then have fs: "r < length h' \<and> h' ! r = remove_fields ks (h ! payload)
         \<and> length h \<le> length h' \<and> take (length h) h' = h"
      using filterPayload_spec by blast
    then have "\<forall>i < length h. h' ! i = h ! i" using heap_prefix_nth by blast
    then show "(\<forall>i < length h. h' ! i = h ! i)
      \<and> r < length h'
      \<and> fst ` set (h' ! r) = fst ` set (h ! payload) - set ks
      \<and> (\<forall>k. k \<notin> set ks \<longrightarrow> map_of (h' ! r) k = map_of (h ! payload) k)"
      using fs by (simp add: keys_remove_fields map_of_remove_fields)
  qed
  have b: "fullPayload < length h \<and> indexPayload < length h
        \<and> sendTelemetryToVendors cfg h fullPayload indexPayload s = (h2, sent) \<longrightarrow>
      (\<forall>i < length h. h2 ! i = h ! i)
      \<and> sent = map (\<lambda>v. (v, shapedPayload cfg (h ! fullPayload) (h ! indexPayload) s v))
                 (config.vendors cfg)"
  proof
    assume p: "fullPayload < length h \<and> indexPayload < length h
        \<and> sendTelemetryToVendors cfg h fullPayload indexPayload s = (h2, sent)"
    then obtain hx where hx: "sendTelemetryToVendors cfg h fullPayload indexPayload s
       = (hx, map (\<lambda>v. (v, shapedPayload cfg (h ! fullPayload) (h ! indexPayload) s v))
              (config.vendors cfg))" and t: "take (length h) hx = h"
      using sendTelemetryToVendors_heap [of fullPayload h indexPayload cfg s] by blast
    have e1: "h2 = hx" and e2: "sent = map (\<lambda>v. (v, shapedPayload cfg (h ! fullPayload) (h ! indexPayload) s v))
              (config.vendors cfg)"
      using p hx by simp_all
    have "\<forall>i < length h. h2 ! i = h ! i" using heap_prefix_nth t e1 by blast
    then show "(\<forall>i < length h. h2 ! i = h ! i)
      \<and> sent = map (\<lambda>v. (v, shapedPayload cfg (h ! fullPayload) (h ! indexPayload) s v))
                 (config.vendors cfg)"
      using e2 by blast
  qed
  show ?thesis using a b by blast
qed

theorem filterPayload_copy_on_write_witness:
  "(0::nat) < length example_heap \<and> (1::nat) < length example_heap
   \<and> filterPayload example_heap 0 [''pageUrl'', ''cpmStats'']
       = (2, example_heap @ [[(''domain'', JStr ''example.com''), (''fillRate'', JNum (1 / 2))]])
   \<and> (example_heap @ [[(''domain'', JStr ''example.com''), (''fillRate'', JNum (1 / 2))]]) ! 0
       = example_heap ! 0
   \<and> fst (sendTelemetryToVendors
      (example_config [example_vendor ''raw'' (Some [''pageUrl'']), example_vendor ''both'' None,
                       example_vendor ''index'' None] [''domain''])
      example_heap 0 1 (1 / 5)) ! 0 = example_heap ! 0
   \<and> snd (sendTelemetryToVendors
      (example_config [example_vendor ''raw'' (Some [''pageUrl'']), example_vendor ''both'' None,
                       example_vendor ''index'' None] [''domain''])
      example_heap 0 1 (1 / 5))
     = map (\<lambda>v. (v, shapedPayload
        (example_config [example_vendor ''raw'' (Some [''pageUrl'']), example_vendor ''both'' None,
                       example_vendor ''index'' None] [''domain''])
        (example_heap ! 0) (example_heap ! 1) (1 / 5) v))
        [example_vendor ''raw'' (Some [''pageUrl'']), example_vendor ''both'' None,
                       example_vendor ''index'' None]"
proof -
  have l: "(0::nat) < length example_heap \<and> (1::nat) < length example_heap"
    by (simp add: example_heap_def)
  have v: "config.vendors (example_config [example_vendor ''raw'' (Some [''pageUrl'']),
                example_vendor ''both'' None, example_vendor ''index'' None] [''domain''])
      = [example_vendor ''raw'' (Some [''pageUrl'']), example_vendor ''both'' None,
                       example_vendor ''index'' None]"
    by (simp add: example_config_def)
  have a: "(example_heap @ [[(''domain'', JStr ''example.com''), (''fillRate'', JNum (1 / 2))]]) ! 0
       = example_heap ! 0"
    using filterPayload_copy_on_write [of 0 example_heap "[''pageUrl'', ''cpmStats'']" 2
        "example_heap @ [[(''domain'', JStr ''example.com''), (''fillRate'', JNum (1 / 2))]]"]
      l example_filter by simp
  have b: "fst (sendTelemetryToVendors
      (example_config [example_vendor ''raw'' (Some [''pageUrl'']), example_vendor ''both'' None,
                       example_vendor ''index'' None] [''domain''])
      example_heap 0 1 (1 / 5)) ! 0 = example_heap ! 0
   \<and> snd (sendTelemetryToVendors
      (example_config [example_vendor ''raw'' (Some [''pageUrl'']), example_vendor ''both'' None,
                       example_vendor ''index'' None] [''domain''])
      example_heap 0 1 (1 / 5))
     = map (\<lambda>v. (v, shapedPayload
        (example_config [example_vendor ''raw'' (Some [''pageUrl'']), example_vendor ''both'' None,
                       example_vendor ''index'' None] [''domain''])
        (example_heap ! 0) (example_heap ! 1) (1 / 5) v))
        [example_vendor ''raw'' (Some [''pageUrl'']), example_vendor ''both'' None,
                       example_vendor ''index'' None]"
    using filterPayload_copy_on_write [of _ example_heap _ _ _ 0 1
        "example_config [example_vendor ''raw'' (Some [''pageUrl'']), example_vendor ''both'' None,
                       example_vendor ''index'' None] [''domain'']" "1 / 5"
        "fst (sendTelemetryToVendors
      (example_config [example_vendor ''raw'' (Some [''pageUrl'']), example_vendor ''both'' None,
                       example_vendor ''index'' None] [''domain''])
      example_heap 0 1 (1 / 5))"
        "snd (sendTelemetryToVendors
      (example_config [example_vendor ''raw'' (Some [''pageUrl'']), example_vendor ''both'' None,
                       example_vendor ''index'' None] [''domain''])
      example_heap 0 1 (1 / 5))"] l v
    by simp
  show ?thesis using l a b example_filter by simp
qed

subsection \<open>Events of an unknown auction\<close>



subsection \<open>The end-to-end scenario\<close>


lemma signal_uses_unrounded_fillRate:
  "auctionSignal_of \<lparr>auction_data.auctionId = ''A2'', auction_data.auctionStart = 1000,
       auction_data.adUnits = 1, auction_data.bidderRequests = 8, auction_data.bidResponses = 1,
       auction_data.noBids = 0, auction_data.cpms = [1 / 10], auction_data.bidders = [''b'']\<rparr>
     = 7 / 100
   \<and> calculateAuctionSignal (1 / 8) (1 / 10) 1 = 7 / 100
   \<and> calculateAuctionSignal (Math_round ((1 / 8) * 100) / 100) (1 / 10) 1 = 8 / 100"
  by (simp add: auctionSignal_of_def fillRate_of_def calculateCpmStats_def
        calculateAuctionSignal_def Let_def Math_round_def floor_rat)



subsection \<open>The content context\<close>

lemma buildContextObject_carries:
  "truthy c \<Longrightarrow> (buildContextObject c \<noteq> JNull) = carries c"
  by (cases "get_prop c ''keywords''")
     (auto simp add: buildContextObject_def carries_def Let_def)

lemma buildContextObject_falsy: "\<not> truthy c \<Longrightarrow> buildContextObject c = JNull"
  by (simp add: buildContextObject_def)

lemma find_append_first:
  "find P (xs @ ys) = (case find P xs of None \<Rightarrow> find P ys | Some x \<Rightarrow> Some x)"
  by (induction xs) auto

lemma scanBidderRequests_find:
  "\<forall>br \<in> set brs. \<not> nullish br \<Longrightarrow>
   scanBidderRequests brs
     = (case find truthy (map request_content brs) of
          None \<Rightarrow> NotFound
        | Some c \<Rightarrow> Returned (buildContextObject c))"
  by (induction brs) (auto simp add: request_content_def Let_def)

lemma global_content:
  "opt_chain (get_prop (if truthy g then g else JObj []) ''site'') ''content''
     = opt_chain (opt_chain g ''site'') ''content''"
  by (cases g) (auto simp add: opt_chain_def)

lemma getContentContext_sources:
  "getContentContext e args =
    (case (case event_args.bidderRequests args of
             None \<Rightarrow> NotFound
           | Some brs \<Rightarrow> scanBidderRequests brs) of
       Thrown \<Rightarrow> JNull
     | Returned v \<Rightarrow> v
     | NotFound \<Rightarrow>
         if truthy (opt_chain (opt_chain (event_args.ortb2 args) ''site'') ''content'')
         then buildContextObject (opt_chain (opt_chain (event_args.ortb2 args) ''site'') ''content'')
         else if truthy (opt_chain (opt_chain (ortb2Config e) ''site'') ''content'')
         then buildContextObject (opt_chain (opt_chain (ortb2Config e) ''site'') ''content'')
         else JNull)"
  by (simp only: getContentContext_def Let_def global_content)

text \<open>
  Claim C1, as the code has it. The resolver goes through the bidder requests in
  order, then the arguments of the event, then the global configuration, and stops at
  the first source that holds a content descriptor at all (a truthy \<open>content\<close>): the
  result is built from that descriptor alone. It is a context when the descriptor
  carries a language or a non-empty keywords array, and null when it carries neither
  or when no source holds a descriptor. The bidder requests are objects (an entry that
  is null or undefined makes the resolver return null).
\<close>

theorem getContentContext_first_descriptor:
  assumes "\<forall>br \<in> set (case event_args.bidderRequests args of None \<Rightarrow> [] | Some brs \<Rightarrow> brs).
             \<not> nullish br"
  shows "getContentContext e args
           = (case find truthy (content_sources e args) of
                None \<Rightarrow> JNull
              | Some content \<Rightarrow> buildContextObject content)
       \<and> (getContentContext e args \<noteq> JNull
            \<longleftrightarrow> (\<exists>content. find truthy (content_sources e args) = Some content
                    \<and> carries content))"
proof -
  define brs where "brs = (case event_args.bidderRequests args of None \<Rightarrow> [] | Some brs \<Rightarrow> brs)"
  have sc: "(case event_args.bidderRequests args of None \<Rightarrow> NotFound
             | Some brs \<Rightarrow> scanBidderRequests brs)
      = (case find truthy (map request_content brs) of
          None \<Rightarrow> NotFound
        | Some c \<Rightarrow> Returned (buildContextObject c))"
  proof (cases "event_args.bidderRequests args")
    case None
    then show ?thesis by (simp add: brs_def)
  next
    case (Some xs)
    then show ?thesis using assms scanBidderRequests_find [of xs] by (simp add: brs_def)
  qed
  have eq: "getContentContext e args
           = (case find truthy (content_sources e args) of
                None \<Rightarrow> JNull
              | Some content \<Rightarrow> buildContextObject content)"
    unfolding getContentContext_sources sc content_sources_def brs_def [symmetric]
    by (auto simp add: find_append_first split: option.splits)
  have iff: "(case find truthy (content_sources e args) of
                None \<Rightarrow> JNull
              | Some content \<Rightarrow> buildContextObject content) \<noteq> JNull
            \<longleftrightarrow> (\<exists>content. find truthy (content_sources e args) = Some content
                    \<and> carries content)"
  proof (cases "find truthy (content_sources e args)")
    case None
    then show ?thesis by simp
  next
    case (Some c)
    then have "truthy c" by (auto simp add: find_Some_iff)
    then show ?thesis using Some by (simp add: buildContextObject_carries)
  qed
  show ?thesis using eq iff by simp
qed

theorem getContentContext_first_descriptor_witness:
  "event_args.bidderRequests example_requests
     = Some [content_with [], content_with [(''language'', JStr ''en'')]]
   \<and> \<not> nullish (content_with [])
   \<and> \<not> nullish (content_with [(''language'', JStr ''en'')])
   \<and> find truthy (content_sources example_env example_requests) = Some (JObj [])
   \<and> \<not> carries (JObj [])
   \<and> getContentContext example_env example_requests = JNull"
proof -
  have a: "\<forall>br \<in> set (case event_args.bidderRequests example_requests of
                   None \<Rightarrow> [] | Some brs \<Rightarrow> brs). \<not> nullish br"
    by (simp add: example_requests_def no_args_def content_with_def)
  have f: "find truthy (content_sources example_env example_requests) = Some (JObj [])"
    by (simp add: content_sources_def example_requests_def no_args_def content_with_def
          request_content_def opt_chain_def)
  have b: "buildContextObject (JObj []) = JNull"
    by (simp add: buildContextObject_def)
  have r: "event_args.bidderRequests example_requests
     = Some [content_with [], content_with [(''language'', JStr ''en'')]]"
    by (simp add: example_requests_def no_args_def)
  have n: "\<not> nullish (content_with []) \<and> \<not> nullish (content_with [(''language'', JStr ''en'')])"
    by (simp add: content_with_def)
  have nc: "\<not> carries (JObj [])"
    by (simp add: carries_def)
  show ?thesis
    using getContentContext_first_descriptor [OF a, of example_env] f b r n nc by simp
qed

text \<open>
  Claim C1, as it is stated, fails: when the first bidder request holds an empty content
  descriptor and the second one a descriptor with a language, the resolver returns null,
  where the fallback over the descriptors that carry language or keywords gives the
  context of the second request.
\<close>

theorem getContentContext_skips_later_sources:
  "getContentContext example_env example_requests = JNull
   \<and> resolve_spec example_env example_requests
       = JObj [(''language'', JStr ''en''), (''source'', JStr ''ortb2'')]"
  by (simp add: getContentContext_def resolve_spec_def content_sources_def example_requests_def
        no_args_def content_with_def request_content_def opt_chain_def buildContextObject_def
        carries_def Let_def)

subsection \<open>Validation of the exclusion lists\<close>

lemma enableAnalytics_global_fields_known:
  "set (config.excludeFields cfg) \<subseteq> set PAYLOAD_FIELDS \<Longrightarrow>
   set (config.excludeFields (enableAnalytics cfg adapterConfig)) \<subseteq> set PAYLOAD_FIELDS"
  by (auto simp add: enableAnalytics_def Let_def split: option.splits)

text \<open>
  Claim C2 says that every field name outside \<^const>\<open>PAYLOAD_FIELDS\<close> is dropped when
  the adapter is enabled, from the global list and from each vendor's own list. The
  global list is filtered, as the lemma above shows; a vendor's own list is only checked
  to be an array. Enabling with the unknown name \<open>notAField\<close> in both lists drops it from
  the global list and keeps it in the list in effect for the vendor.
\<close>

theorem enableAnalytics_vendor_fields_unchecked:
  "config.excludeFields (enableAnalytics initial_config (Some unchecked_options)) = [''cpmStats'']
   \<and> map (\<lambda>v. (vendor.name v,
              getExcludeFieldsForVendor (enableAnalytics initial_config (Some unchecked_options)) v))
        (config.vendors (enableAnalytics initial_config (Some unchecked_options)))
      = [(''vendor1'', [''notAField''])]
   \<and> ''notAField'' \<notin> set PAYLOAD_FIELDS"
  by (simp add: enableAnalytics_def unchecked_options_def validateVendor_def List.map_filter_def
        DATA_MODES_def PAYLOAD_FIELDS_def getExcludeFieldsForVendor_def Let_def)

end
